theory Spec2Isabelle
  imports Complex_Main "HOL-Library.Multiset"
begin

section \<open>Task records as the pages receive them\<close>

text \<open>
  The pages \<^verbatim>\<open>CarDetail.js\<close> and \<^verbatim>\<open>Dashboard.js\<close> read maintenance tasks from the
  REST interface as JSON objects. The fields the pages use are kept under the names of the
  JSON keys (\<^verbatim>\<open>id\<close> is \<open>task_id\<close>, since \<open>id\<close> is the identity function of HOL).
  The status is the string the server sent; the pages compare it with string literals.
\<close>

record task =
  task_id :: string
  task_type :: string
  status :: string
  replacement_requested :: bool
  replacement_reason :: string
  last_performed_mileage :: int
  next_due_mileage :: int
  interval_miles :: int
  interval_months :: int

section \<open>CarDetail: the health-status tally\<close>

text \<open>
  \<^verbatim>\<open>getStatusCounts\<close> starts from the object
  \<^verbatim>\<open>{ good: 0, due_soon: 0, overdue: 0, replacement_requested: 0 }\<close> and visits the
  tasks in order. The object is a record of four counters; the counter of the key
  \<^verbatim>\<open>replacement_requested\<close> is \<open>replacement_requested_n\<close>, because the task record
  already has a field of that name. \<^verbatim>\<open>counts.hasOwnProperty(t.status)\<close> holds exactly
  for the four keys of the object, which is the case distinction of \<open>tally\<close>.
\<close>

record status_counts =
  good :: int
  due_soon :: int
  overdue :: int
  replacement_requested_n :: int

definition counts0 :: status_counts where
  "counts0 = \<lparr>good = 0, due_soon = 0, overdue = 0, replacement_requested_n = 0\<rparr>"

definition hasOwnProperty_counts :: "string \<Rightarrow> bool" where
  "hasOwnProperty_counts k =
     (k = ''good'' \<or> k = ''due_soon'' \<or> k = ''overdue'' \<or> k = ''replacement_requested'')"

definition tally :: "status_counts \<Rightarrow> task \<Rightarrow> status_counts" where
  "tally counts t =
     (if hasOwnProperty_counts (status t) then
        (if status t = ''good'' then counts\<lparr>good := good counts + 1\<rparr>
         else if status t = ''due_soon'' then counts\<lparr>due_soon := due_soon counts + 1\<rparr>
         else if status t = ''overdue'' then counts\<lparr>overdue := overdue counts + 1\<rparr>
         else counts\<lparr>replacement_requested_n := replacement_requested_n counts + 1\<rparr>)
      else counts\<lparr>good := good counts + 1\<rparr>)"

definition getStatusCounts :: "task list \<Rightarrow> status_counts" where
  "getStatusCounts tasks = foldl tally counts0 tasks"

definition count_status :: "string \<Rightarrow> task list \<Rightarrow> int" where
  "count_status s tasks = int (length (filter (\<lambda>t. status t = s) tasks))"

definition count_other :: "task list \<Rightarrow> int" where
  "count_other tasks = int (length (filter (\<lambda>t. \<not> hasOwnProperty_counts (status t)) tasks))"

definition mk_task :: "string \<Rightarrow> string \<Rightarrow> bool \<Rightarrow> task" where
  "mk_task i s r = \<lparr>task_id = i, task_type = ''oil_change'', status = s,
     replacement_requested = r, replacement_reason = [],
     last_performed_mileage = 50000, next_due_mileage = 55000,
     interval_miles = 5000, interval_months = 6\<rparr>"

section \<open>CarDetail: the status badge of a task card\<close>

text \<open>
  Each task card computes
  \<^verbatim>\<open>isReplacementRequested = task.status === 'replacement_requested' || task.replacement_requested\<close>
  and renders the badge text and the badge class by the same chain of conditionals.
\<close>

definition isReplacementRequested :: "task \<Rightarrow> bool" where
  "isReplacementRequested t = (status t = ''replacement_requested'' \<or> replacement_requested t)"

definition badgeLabel :: "task \<Rightarrow> string" where
  "badgeLabel t =
     (if isReplacementRequested t then ''Needs Replacement''
      else if status t = ''overdue'' then ''Overdue''
      else if status t = ''due_soon'' then ''Due Soon''
      else ''Good'')"

definition badgeClass :: "task \<Rightarrow> string" where
  "badgeClass t =
     (if isReplacementRequested t
        then ''bg-purple-100 text-purple-700 dark:bg-purple-900/30 dark:text-purple-400''
      else if status t = ''overdue'' then ''status-overdue''
      else if status t = ''due_soon'' then ''status-due-soon''
      else ''status-good'')"

section \<open>Dashboard: the upcoming-maintenance selection\<close>

text \<open>
  \<^verbatim>\<open>upcomingTasks\<close> is \<^verbatim>\<open>tasks.filter(...).sort(...).slice(0, 5)\<close>. The comparator
  \<^verbatim>\<open>(a, b) => (a.status === 'overdue' ? -1 : 1)\<close> looks at its first argument only, so
  it is not a consistent order and the language leaves the resulting order to the engine.
  \<^verbatim>\<open>Array.prototype.sort\<close> is therefore a parameter \<open>srt\<close> of the model; all that
  is used of it is that it returns a rearrangement of its input. \<open>insertion_sort\<close> is one
  such sort, driven by the comparator the way an engine drives it.
\<close>

definition upcoming_cmp :: "task \<Rightarrow> task \<Rightarrow> int" where
  "upcoming_cmp a b = (if status a = ''overdue'' then - 1 else 1)"

definition upcomingTasks ::
  "((task \<Rightarrow> task \<Rightarrow> int) \<Rightarrow> task list \<Rightarrow> task list) \<Rightarrow> task list \<Rightarrow> task list" where
  "upcomingTasks srt tasks =
     take 5 (srt upcoming_cmp
       (filter (\<lambda>t. status t = ''due_soon'' \<or> status t = ''overdue'') tasks))"

fun insert_cmp :: "('a \<Rightarrow> 'a \<Rightarrow> int) \<Rightarrow> 'a \<Rightarrow> 'a list \<Rightarrow> 'a list" where
  "insert_cmp cmp x [] = [x]"
| "insert_cmp cmp x (y # ys) =
     (if cmp y x > 0 then x # y # ys else y # insert_cmp cmp x ys)"

definition insertion_sort :: "('a \<Rightarrow> 'a \<Rightarrow> int) \<Rightarrow> 'a list \<Rightarrow> 'a list" where
  "insertion_sort cmp xs = foldl (\<lambda>acc x. insert_cmp cmp x acc) [] xs"

section \<open>LanguageContext: distances and translations\<close>

text \<open>
  \<^verbatim>\<open>convertDistance(value, toUnit = distanceUnit)\<close> and
  \<^verbatim>\<open>formatDistance(value, showUnit = true)\<close> receive whatever the JSON record holds
  under a mileage key: a number, \<^verbatim>\<open>null\<close>, or nothing at all. \<open>jsval\<close> has these
  values and \<^verbatim>\<open>NaN\<close>. A number is an exact rational here: the product
  \<^verbatim>\<open>value * 1.60934\<close> and \<^verbatim>\<open>Math.round\<close> are computed without the rounding error
  of binary floating point. \<^verbatim>\<open>Math.round\<close> rounds to the nearest integer and a tie
  towards plus infinity, which is \<open>\<lfloor>x + 1/2\<rfloor>\<close>.

  The properties of the conversion below are stated for whole numbers of miles of at
  most 1000000 in absolute value: the mileages of the data model are whole numbers,
  1000000 is the range the spec gives for the converter, and in that range the product of
  the two doubles rounds to the same integer as the exact product. Beyond it the two can
  differ: for whole numbers above \<open>10^12\<close> and for fractions whose product lies within a
  rounding error of a half the double product can round to the neighbouring integer, and
  for a fraction between \<open>-0.31\<close> and 0 \<^verbatim>\<open>Math.round\<close> gives the negative zero, which
  the rationals do not have.

  The state variable \<^verbatim>\<open>distanceUnit\<close> is a string (\<^verbatim>\<open>'miles'\<close> unless the saved
  preference says otherwise); the code compares it with \<^verbatim>\<open>'km'\<close> only. It is an
  explicit argument of the model, where the code reads it from the enclosing component.
\<close>

datatype jsval = Undefined | Null | NaN | Num rat

fun truthy :: "jsval \<Rightarrow> bool" where
  "truthy (Num x) = (x \<noteq> 0)"
| "truthy _ = False"

definition Math_round :: "rat \<Rightarrow> int" where
  "Math_round x = \<lfloor>x + 1 / 2\<rfloor>"

definition convertDistance :: "jsval \<Rightarrow> string \<Rightarrow> rat" where
  "convertDistance value toUnit =
     (if \<not> truthy value then 0
      else case value of
             Num x \<Rightarrow> (if toUnit = ''km'' then of_int (Math_round (x * 1.60934)) else x)
           | _ \<Rightarrow> 0)"

text \<open>
  \<^verbatim>\<open>Number.prototype.toLocaleString\<close> depends on the locale of the browser, so it is the
  argument \<open>toLocaleString\<close> of \<open>formatDistance\<close>.
\<close>

definition formatDistance :: "(rat \<Rightarrow> string) \<Rightarrow> string \<Rightarrow> jsval \<Rightarrow> bool \<Rightarrow> string" where
  "formatDistance toLocaleString distanceUnit value showUnit =
     (if \<not> truthy value \<and> value \<noteq> Num 0 then ''N/A''
      else let converted = convertDistance value distanceUnit;
               unit = (if distanceUnit = ''km'' then ''km'' else ''mi'')
           in if showUnit then toLocaleString converted @ '' '' @ unit
              else toLocaleString converted)"

text \<open>
  The formatter of the locale \<^verbatim>\<open>en-US\<close>, for the concrete evaluations below: a minus
  sign for a negative number, the integer part in groups of three digits, and at most
  three fraction digits, rounded half away from zero, without trailing zeros.
\<close>

definition digit_char :: "nat \<Rightarrow> char" where
  "digit_char d = ''0123456789'' ! d"

fun digits :: "nat \<Rightarrow> string" where
  "digits n =
     (if n < 10 then [digit_char n] else digits (n div 10) @ [digit_char (n mod 10)])"

declare digits.simps [simp del]

fun group3 :: "string \<Rightarrow> string" where
  "group3 (a # b # c # d # ds) = a # b # c # CHR '','' # group3 (d # ds)"
| "group3 ds = ds"

definition fraction3 :: "nat \<Rightarrow> string" where
  "fraction3 f =
     (if f = 0 then []
      else CHR ''.'' # rev (dropWhile (\<lambda>c. c = CHR ''0'')
             (rev [digit_char (f div 100), digit_char (f div 10 mod 10), digit_char (f mod 10)])))"

definition toLocaleString_en :: "rat \<Rightarrow> string" where
  "toLocaleString_en x =
     (let n = nat \<lfloor>\<bar>x\<bar> * 1000 + 1 / 2\<rfloor>
      in (if x < 0 then ''-'' else []) @ rev (group3 (rev (digits (n div 1000))))
         @ fraction3 (n mod 1000))"

text \<open>
  Modelled from the spec: \<^verbatim>\<open>toCanonical(displayValue, unit)\<close>, the inverse conversion of
  the UnitConverter. The sources convert from miles to the display unit only; the spec
  gives the inverse as \<^verbatim>\<open>round(displayValue / 1.60934)\<close> for kilometers and the value
  unchanged otherwise. The unit is the string of \<open>convertDistance\<close>, and the rounding is
  the one of \<open>convertDistance\<close> as well.
\<close>

definition toCanonical :: "rat \<Rightarrow> string \<Rightarrow> rat" where
  "toCanonical displayValue unit =
     (if unit = ''km'' then of_int (Math_round (displayValue / 1.60934)) else displayValue)"

text \<open>
  The translation lookup is
  \<^verbatim>\<open>t = (key) => translations[language]?.[key] || translations['en']?.[key] || key\<close>.
  The table \<^verbatim>\<open>translations\<close> is imported from \<^verbatim>\<open>../i18n/translations\<close>; it is a
  parameter of the model, which gives the table's own entries: for a language code the
  own entries of its table, a string for each key. The function is \<open>t_lookup\<close>, since a
  constant \<open>t\<close> would capture the variable of that name.

  The tables are ordinary objects, and member access on an ordinary object that has no
  own entry of the name goes on to \<^verbatim>\<open>Object.prototype\<close>. The names found there are
  \<open>object_prototype_names\<close>: eleven functions and the accessor \<^verbatim>\<open>__proto__\<close>, which
  gives \<^verbatim>\<open>Object.prototype\<close> itself. So \<^verbatim>\<open>translations[language]\<close> is one of three
  things (\<open>holder\<close>): nothing, the table of the language, or a built-in object; and a
  member of a table is a value \<open>jsv\<close>: \<^verbatim>\<open>undefined\<close>, a string, or a built-in object,
  written \<open>JObject\<close> with the name under which it was found.
\<close>

datatype jsv = JUndefined | JNull | JString string | JNumber rat | JObject string

datatype completion = Normal jsv | ThrowTypeError

datatype holder = NoObject | TableObject "string \<rightharpoonup> string" | BuiltinObject string

definition object_prototype_names :: "string list" where
  "object_prototype_names =
     [''constructor'', ''__proto__'', ''hasOwnProperty'', ''isPrototypeOf'',
      ''propertyIsEnumerable'', ''toLocaleString'', ''toString'', ''valueOf'',
      ''__defineGetter__'', ''__defineSetter__'', ''__lookupGetter__'', ''__lookupSetter__'']"

definition member_of_translations :: "(string \<rightharpoonup> (string \<rightharpoonup> string)) \<Rightarrow> string \<Rightarrow> holder" where
  "member_of_translations translations language =
     (case translations language of
        Some tbl \<Rightarrow> TableObject tbl
      | None \<Rightarrow>
          if language \<in> set object_prototype_names then BuiltinObject language else NoObject)"

definition member_of_table :: "(string \<rightharpoonup> string) \<Rightarrow> string \<Rightarrow> jsv" where
  "member_of_table tbl key =
     (case tbl key of
        Some s \<Rightarrow> JString s
      | None \<Rightarrow> if key \<in> set object_prototype_names then JObject key else JUndefined)"

text \<open>
  \<open>optional_member\<close> is \<^verbatim>\<open>obj?.[key]\<close>: \<^verbatim>\<open>undefined\<close> when there is no object, and
  no exception. What a built-in object gives for a key (a string such as the name of a
  function, a number, another object, nothing, or a \<^verbatim>\<open>TypeError\<close> from an accessor)
  is the business of the JavaScript engine; it is the parameter \<open>builtin_member\<close>.
  \<open>truthy_jsv\<close> is the test that \<^verbatim>\<open>||\<close> makes: \<^verbatim>\<open>undefined\<close>, \<^verbatim>\<open>null\<close>, the empty
  string and zero are passed over. The second operand of \<^verbatim>\<open>||\<close> is evaluated only when
  the first is passed over.
\<close>

definition optional_member ::
  "(string \<Rightarrow> string \<Rightarrow> completion) \<Rightarrow> holder \<Rightarrow> string \<Rightarrow> completion" where
  "optional_member builtin_member obj key =
     (case obj of
        NoObject \<Rightarrow> Normal JUndefined
      | TableObject tbl \<Rightarrow> Normal (member_of_table tbl key)
      | BuiltinObject b \<Rightarrow> builtin_member b key)"

fun truthy_jsv :: "jsv \<Rightarrow> bool" where
  "truthy_jsv JUndefined = False"
| "truthy_jsv JNull = False"
| "truthy_jsv (JString s) = (s \<noteq> [])"
| "truthy_jsv (JNumber x) = (x \<noteq> 0)"
| "truthy_jsv (JObject b) = True"

definition t_lookup ::
  "(string \<Rightarrow> string \<Rightarrow> completion) \<Rightarrow> (string \<rightharpoonup> (string \<rightharpoonup> string))
     \<Rightarrow> string \<Rightarrow> string \<Rightarrow> completion" where
  "t_lookup builtin_member translations language key =
     (case optional_member builtin_member (member_of_translations translations language) key of
        ThrowTypeError \<Rightarrow> ThrowTypeError
      | Normal a \<Rightarrow>
          if truthy_jsv a then Normal a
          else
            (case optional_member builtin_member (member_of_translations translations ''en'') key of
               ThrowTypeError \<Rightarrow> ThrowTypeError
             | Normal b \<Rightarrow> if truthy_jsv b then Normal b else Normal (JString key)))"


section \<open>CarDetail: requesting a replacement\<close>

text \<open>
  \<^verbatim>\<open>handleRequestReplacement(taskId)\<close> reads the state variable
  \<^verbatim>\<open>replacementReason\<close> of the page. When \<^verbatim>\<open>replacementReason.trim()\<close> is empty it
  shows an error toast and returns. Otherwise it posts the reason to
  \<^verbatim>\<open>/maintenance/{taskId}/request-replacement\<close>; on success it shows a success toast,
  closes the dialog, clears the reason and reloads the page data, and when the request
  fails it shows an error toast.

  The state of the model is the part of the page state the handler touches, the toasts
  shown so far, and the task collection behind the REST interface (\<open>server\<close>). Strings
  are lists of 8-bit characters; the white space that \<^verbatim>\<open>trim\<close> removes is, in that
  range, the characters 9 to 13, 32 and 160.
\<close>

datatype toast = ToastError string | ToastSuccess string

datatype error = ValidationError | NotFound

definition isWhiteSpace :: "char \<Rightarrow> bool" where
  "isWhiteSpace c = (of_char c \<in> {9, 10, 11, 12, 13, 32, 160 :: nat})"

definition trim :: "string \<Rightarrow> string" where
  "trim s = rev (dropWhile isWhiteSpace (rev (dropWhile isWhiteSpace s)))"

record car_detail =
  tasks :: "task list"
  replacementOpen :: "string option"
  replacementReason :: string
  toasts :: "toast list"
  server :: "task list"

text \<open>
  Modelled from the spec: the endpoint \<^verbatim>\<open>POST /maintenance/{task_id}/request-replacement\<close>
  of the backend, which is not among the sources. The spec has the request-handling layer
  check that the task exists and that the reason is not empty, set
  \<^verbatim>\<open>replacementRequested = true\<close> and store the reason, leaving the mileage and interval
  fields untouched.
\<close>

definition request_replacement :: "task list \<Rightarrow> string \<Rightarrow> string \<Rightarrow> error + task list" where
  "request_replacement db taskId reason =
     (if \<not> list_ex (\<lambda>t. task_id t = taskId) db then Inl NotFound
      else if reason = [] then Inl ValidationError
      else Inr (map (\<lambda>t. if task_id t = taskId
                          then t\<lparr>replacement_requested := True, replacement_reason := reason\<rparr>
                          else t) db))"

text \<open>
  \<^verbatim>\<open>fetchCarData\<close> reloads the car, its tasks and its mileage log; of these the model
  keeps the tasks.
\<close>

definition fetchCarData :: "car_detail \<Rightarrow> car_detail" where
  "fetchCarData st = st\<lparr>tasks := server st\<rparr>"

definition handleRequestReplacement :: "string \<Rightarrow> car_detail \<Rightarrow> car_detail" where
  "handleRequestReplacement taskId st =
     (if trim (replacementReason st) = [] then
        st\<lparr>toasts := toasts st @ [ToastError ''Please provide a reason for replacement'']\<rparr>
      else
        case request_replacement (server st) taskId (replacementReason st) of
          Inr db \<Rightarrow>
            fetchCarData (st\<lparr>server := db,
              toasts := toasts st @ [ToastSuccess ''Replacement requested!''],
              replacementOpen := None, replacementReason := []\<rparr>)
        | Inl e \<Rightarrow> st\<lparr>toasts := toasts st @ [ToastError ''Failed to request replacement'']\<rparr>)"

definition car_detail0 :: "string \<Rightarrow> car_detail" where
  "car_detail0 reason =
     \<lparr>tasks = [mk_task ''a'' ''overdue'' False, mk_task ''b'' ''good'' False],
      replacementOpen = Some ''a'', replacementReason = reason, toasts = [],
      server = [mk_task ''a'' ''overdue'' False, mk_task ''b'' ''good'' False]\<rparr>"

section \<open>StatusEngine\<close>

text \<open>
  Modelled from the spec: the StatusEngine, which runs in the backend and is not among
  the sources (the pages receive \<^verbatim>\<open>status\<close> and \<^verbatim>\<open>next_due_mileage\<close> ready-made).
  The spec gives its inputs, its output and its algorithm: the next due mileage is the
  last performed mileage plus the interval, the next due date is the last performed date
  plus the interval in calendar months with the day clamped to the length of the target
  month, and the status follows from the miles and the days remaining, in the order
  replacement, overdue, due soon, good. An interval that is not positive is a validation
  error.
\<close>

text \<open>
  Modelled from the spec: calendar dates, the addition of calendar months with the day
  clamped to the last valid day of the target month, and the difference of two dates in
  days. A date is a triple of year, month and day of the Gregorian calendar.
  \<open>day_number\<close> counts the days from the start of the calendar, so that the days
  remaining are a difference of day numbers; \<open>date_le\<close> is the order of the calendar
  itself.
\<close>

record date =
  year :: int
  month :: int
  day :: int

definition leap_year :: "int \<Rightarrow> bool" where
  "leap_year y = (y mod 4 = 0 \<and> (y mod 100 \<noteq> 0 \<or> y mod 400 = 0))"

definition days_in_month :: "int \<Rightarrow> int \<Rightarrow> int" where
  "days_in_month y m =
     (if m = 2 then (if leap_year y then 29 else 28)
      else if m = 4 \<or> m = 6 \<or> m = 9 \<or> m = 11 then 30
      else 31)"

definition valid_date :: "date \<Rightarrow> bool" where
  "valid_date d =
     (1 \<le> month d \<and> month d \<le> 12 \<and> 1 \<le> day d \<and> day d \<le> days_in_month (year d) (month d))"

definition add_months :: "date \<Rightarrow> int \<Rightarrow> date" where
  "add_months d n =
     (let k = year d * 12 + (month d - 1) + n;
          y = k div 12;
          m = k mod 12 + 1
      in \<lparr>year = y, month = m, day = min (day d) (days_in_month y m)\<rparr>)"

definition days_before_year :: "int \<Rightarrow> int" where
  "days_before_year y = 365 * (y - 1) + (y - 1) div 4 - (y - 1) div 100 + (y - 1) div 400"

definition days_before_month :: "int \<Rightarrow> int \<Rightarrow> int" where
  "days_before_month y m = sum_list (map (days_in_month y) [1..m - 1])"

definition day_number :: "date \<Rightarrow> int" where
  "day_number d = days_before_year (year d) + days_before_month (year d) (month d) + day d"

definition date_le :: "date \<Rightarrow> date \<Rightarrow> bool" where
  "date_le a b =
     (year a < year b
      \<or> (year a = year b
          \<and> (month a < month b \<or> (month a = month b \<and> day a \<le> day b))))"

definition year_length :: "int \<Rightarrow> int" where
  "year_length y = (if leap_year y then 366 else 365)"

definition date_less :: "date \<Rightarrow> date \<Rightarrow> bool" where
  "date_less a b =
     (year a < year b
      \<or> (year a = year b
          \<and> (month a < month b \<or> (month a = month b \<and> day a < day b))))"

definition days_between :: "date \<Rightarrow> date \<Rightarrow> int" where
  "days_between a b = day_number b - day_number a"

text \<open>
  Modelled from the spec: the inputs, the output, the two thresholds and the algorithm of
  the StatusEngine (section 4.1 of the spec), step by step and in the spec's order of
  precedence.
\<close>

datatype task_status = Good | Due_soon | Overdue | Replacement_requested

record status_input =
  lastPerformedMileage :: int
  lastPerformedDate :: date
  intervalMiles :: int
  intervalMonths :: int
  currentMileage :: int
  today :: date
  replacementRequested :: bool

record status_output =
  nextDueMileage :: int
  nextDueDate :: date
  status_label :: task_status

definition DUE_SOON_MILES_THRESHOLD :: int where
  "DUE_SOON_MILES_THRESHOLD = 500"

definition DUE_SOON_DAYS_THRESHOLD :: int where
  "DUE_SOON_DAYS_THRESHOLD = 14"

definition StatusEngine :: "status_input \<Rightarrow> error + status_output" where
  "StatusEngine i =
     (if intervalMiles i \<le> 0 \<or> intervalMonths i \<le> 0 then Inl ValidationError
      else
        let ndm = lastPerformedMileage i + intervalMiles i;
            ndd = add_months (lastPerformedDate i) (intervalMonths i);
            milesRemaining = ndm - currentMileage i;
            daysRemaining = days_between (today i) ndd
        in Inr \<lparr>nextDueMileage = ndm, nextDueDate = ndd,
             status_label =
               (if replacementRequested i then Replacement_requested
                else if milesRemaining \<le> 0 \<or> daysRemaining \<le> 0 then Overdue
                else if milesRemaining \<le> DUE_SOON_MILES_THRESHOLD
                        \<or> daysRemaining \<le> DUE_SOON_DAYS_THRESHOLD then Due_soon
                else Good)\<rparr>)"

definition scenario :: "int \<Rightarrow> status_input" where
  "scenario cur =
     \<lparr>lastPerformedMileage = 50000,
      lastPerformedDate = \<lparr>year = 2024, month = 1, day = 15\<rparr>,
      intervalMiles = 5000, intervalMonths = 6, currentMileage = cur,
      today = \<lparr>year = 2024, month = 6, day = 1\<rparr>,
      replacementRequested = False\<rparr>"

section \<open>Properties of the tally\<close>

lemma foldl_tally_good:
  "good (foldl tally c ts) = good c + count_status ''good'' ts + count_other ts"
  by (induction ts arbitrary: c)
     (auto simp: tally_def count_status_def count_other_def hasOwnProperty_counts_def)

lemma foldl_tally_due_soon:
  "due_soon (foldl tally c ts) = due_soon c + count_status ''due_soon'' ts"
  by (induction ts arbitrary: c)
     (auto simp: tally_def count_status_def hasOwnProperty_counts_def)

lemma foldl_tally_overdue:
  "overdue (foldl tally c ts) = overdue c + count_status ''overdue'' ts"
  by (induction ts arbitrary: c)
     (auto simp: tally_def count_status_def hasOwnProperty_counts_def)

lemma foldl_tally_replacement:
  "replacement_requested_n (foldl tally c ts) =
     replacement_requested_n c + count_status ''replacement_requested'' ts"
  by (induction ts arbitrary: c)
     (auto simp: tally_def count_status_def hasOwnProperty_counts_def)

lemma foldl_tally_sum:
  "good (foldl tally c ts) + due_soon (foldl tally c ts) + overdue (foldl tally c ts)
     + replacement_requested_n (foldl tally c ts)
   = good c + due_soon c + overdue c + replacement_requested_n c + int (length ts)"
  by (induction ts arbitrary: c) (auto simp: tally_def)

text \<open>
  Claim C9. For every list of tasks the tally returns four counts, none of them negative,
  whose sum is the number of tasks. Each of \<open>due_soon\<close>, \<open>overdue\<close> and
  \<open>replacement_requested\<close> counts the tasks carrying that label, and \<open>good\<close> counts the
  tasks labelled \<open>good\<close> together with every task whose status is none of the four labels.
\<close>

theorem getStatusCounts_total:
  "good (getStatusCounts ts) + due_soon (getStatusCounts ts)
     + overdue (getStatusCounts ts) + replacement_requested_n (getStatusCounts ts)
     = int (length ts)
   \<and> 0 \<le> good (getStatusCounts ts) \<and> 0 \<le> due_soon (getStatusCounts ts)
   \<and> 0 \<le> overdue (getStatusCounts ts)
   \<and> 0 \<le> replacement_requested_n (getStatusCounts ts)
   \<and> good (getStatusCounts ts) = count_status ''good'' ts + count_other ts
   \<and> due_soon (getStatusCounts ts) = count_status ''due_soon'' ts
   \<and> overdue (getStatusCounts ts) = count_status ''overdue'' ts
   \<and> replacement_requested_n (getStatusCounts ts)
       = count_status ''replacement_requested'' ts"
proof -
  have total: "good (getStatusCounts ts) + due_soon (getStatusCounts ts)
     + overdue (getStatusCounts ts) + replacement_requested_n (getStatusCounts ts)
     = int (length ts)"
    unfolding getStatusCounts_def by (simp only: foldl_tally_sum) (simp add: counts0_def)
  have g: "good (getStatusCounts ts) = count_status ''good'' ts + count_other ts"
    unfolding getStatusCounts_def by (simp add: foldl_tally_good counts0_def)
  have d: "due_soon (getStatusCounts ts) = count_status ''due_soon'' ts"
    unfolding getStatusCounts_def by (simp add: foldl_tally_due_soon counts0_def)
  have o: "overdue (getStatusCounts ts) = count_status ''overdue'' ts"
    unfolding getStatusCounts_def by (simp add: foldl_tally_overdue counts0_def)
  have r: "replacement_requested_n (getStatusCounts ts)
       = count_status ''replacement_requested'' ts"
    unfolding getStatusCounts_def by (simp add: foldl_tally_replacement counts0_def)
  have nonneg: "0 \<le> count_status s ts" "0 \<le> count_other ts" for s
    by (simp_all add: count_status_def count_other_def)
  from total g d o r nonneg show ?thesis by (simp only: add_nonneg_nonneg simp_thms)
qed

theorem getStatusCounts_total_witness:
  "good (getStatusCounts [mk_task ''a'' ''overdue'' False, mk_task ''b'' ''unknown'' False,
      mk_task ''c'' ''good'' False]) = 2
   \<and> overdue (getStatusCounts [mk_task ''a'' ''overdue'' False, mk_task ''b'' ''unknown'' False,
      mk_task ''c'' ''good'' False]) = 1"
  using getStatusCounts_total [of "[mk_task ''a'' ''overdue'' False,
      mk_task ''b'' ''unknown'' False, mk_task ''c'' ''good'' False]"]
  by (simp add: count_status_def count_other_def mk_task_def hasOwnProperty_counts_def)

section \<open>Properties of the badge and of the upcoming selection\<close>

text \<open>
  Claim C3. For every task record whose \<open>replacement_requested\<close> flag is true, the task
  card shows the badge \<open>Needs Replacement\<close> with the purple badge class, whatever the
  status string, the mileages and the intervals of the record are.
\<close>

theorem replacement_flag_overrides:
  "replacement_requested t \<Longrightarrow>
     isReplacementRequested t \<and> badgeLabel t = ''Needs Replacement''
     \<and> badgeClass t = ''bg-purple-100 text-purple-700 dark:bg-purple-900/30 dark:text-purple-400''"
  by (simp add: isReplacementRequested_def badgeLabel_def badgeClass_def)

theorem replacement_flag_overrides_witness:
  "replacement_requested (mk_task ''a'' ''overdue'' True)
   \<and> badgeLabel (mk_task ''a'' ''overdue'' True) = ''Needs Replacement''
   \<and> badgeLabel (mk_task ''a'' ''overdue'' False) = ''Overdue''"
  using replacement_flag_overrides [of "mk_task ''a'' ''overdue'' True"]
  by (simp add: mk_task_def badgeLabel_def isReplacementRequested_def)

lemma mset_insert_cmp: "mset (insert_cmp cmp x ys) = add_mset x (mset ys)"
  by (induction ys) simp_all

lemma mset_foldl_insert_cmp:
  "mset (foldl (\<lambda>acc x. insert_cmp cmp x acc) acc xs) = mset acc + mset xs"
  by (induction xs arbitrary: acc) (simp_all add: mset_insert_cmp)

lemma mset_insertion_sort: "mset (insertion_sort cmp xs) = mset xs"
  by (simp add: insertion_sort_def mset_foldl_insert_cmp)

text \<open>
  Claim C8. For every list of tasks, and every sort that returns a rearrangement of its
  input, the upcoming-maintenance selection holds only tasks whose status is \<open>due_soon\<close>
  or \<open>overdue\<close>, every one of them a task of the input list, and it has at most five
  entries.
\<close>

theorem upcomingTasks_selection:
  assumes perm: "\<And>cmp xs. mset (srt cmp xs) = mset xs"
  shows "(\<forall>t \<in> set (upcomingTasks srt ts).
            (status t = ''due_soon'' \<or> status t = ''overdue'') \<and> t \<in> set ts)
         \<and> length (upcomingTasks srt ts) \<le> 5"
proof -
  let ?sel = "filter (\<lambda>t. status t = ''due_soon'' \<or> status t = ''overdue'') ts"
  have "set (srt upcoming_cmp ?sel) = set ?sel"
    using perm [of upcoming_cmp ?sel] by (rule mset_eq_setD)
  moreover have "set (upcomingTasks srt ts) \<subseteq> set (srt upcoming_cmp ?sel)"
    unfolding upcomingTasks_def by (rule set_take_subset)
  ultimately have "set (upcomingTasks srt ts) \<subseteq> set ?sel" by simp
  then have "\<forall>t \<in> set (upcomingTasks srt ts).
      (status t = ''due_soon'' \<or> status t = ''overdue'') \<and> t \<in> set ts"
    by auto
  moreover have "length (upcomingTasks srt ts) \<le> 5"
    unfolding upcomingTasks_def by simp
  ultimately show ?thesis by blast
qed

theorem upcomingTasks_selection_witness:
  "upcomingTasks insertion_sort
     [mk_task ''a'' ''good'' False, mk_task ''b'' ''due_soon'' False,
      mk_task ''c'' ''overdue'' False, mk_task ''d'' ''replacement_requested'' True]
   = [mk_task ''c'' ''overdue'' False, mk_task ''b'' ''due_soon'' False]
   \<and> length (upcomingTasks insertion_sort
     [mk_task ''a'' ''good'' False, mk_task ''b'' ''due_soon'' False,
      mk_task ''c'' ''overdue'' False, mk_task ''d'' ''replacement_requested'' True]) \<le> 5"
  using upcomingTasks_selection [of insertion_sort
     "[mk_task ''a'' ''good'' False, mk_task ''b'' ''due_soon'' False,
      mk_task ''c'' ''overdue'' False, mk_task ''d'' ''replacement_requested'' True]",
     OF mset_insertion_sort]
  by (simp add: upcomingTasks_def insertion_sort_def upcoming_cmp_def mk_task_def)

section \<open>Properties of the distance conversion and of the translation lookup\<close>

lemma floor_rat_numeral_div:
  "\<lfloor>numeral a / numeral b :: rat\<rfloor> = numeral a div numeral b"
  using floor_divide_of_int_eq [of "numeral a" "numeral b", where ?'a = rat] by simp

lemma floor_rat_neg_numeral_div:
  "\<lfloor>- (numeral a / numeral b) :: rat\<rfloor> = - numeral a div numeral b"
  using floor_divide_of_int_eq [of "- numeral a" "numeral b", where ?'a = rat] by simp

lemmas round_eval = Math_round_def floor_rat_numeral_div floor_rat_neg_numeral_div

lemmas format_eval = toLocaleString_en_def fraction3_def digits.simps digit_char_def
  formatDistance_def convertDistance_def Let_def round_eval

lemma floor_rat_half: "\<lfloor>1 / 2 :: rat\<rfloor> = 0"
  by (rule floor_unique) simp_all

lemma convertDistance_Num:
  "convertDistance (Num m) toUnit =
     (if toUnit = ''km'' then of_int (Math_round (m * 1.60934)) else m)"
  by (simp add: convertDistance_def Math_round_def floor_rat_half)

text \<open>
  Claim C2. For every distance stored in miles, a whole number \<open>m\<close> from 0 to 1000000,
  the display conversion returns \<open>m\<close> unchanged when the unit is miles (any unit string
  other than \<open>km\<close>), and the integer nearest to \<open>m * 1.60934\<close> when the unit is
  kilometers. In particular 100 miles are displayed as 100 in miles and as 161 in
  kilometers.
\<close>

theorem convertDistance_display:
  fixes m :: int
  shows "(0 \<le> m \<and> m \<le> 1000000 \<longrightarrow>
      (toUnit \<noteq> ''km'' \<longrightarrow> convertDistance (Num (of_int m)) toUnit = of_int m)
      \<and> convertDistance (Num (of_int m)) ''miles'' = of_int m
      \<and> convertDistance (Num (of_int m)) ''km'' = of_int (round (of_int m * 1.60934 :: rat))
      \<and> \<bar>convertDistance (Num (of_int m)) ''km'' - of_int m * 1.60934\<bar> \<le> 1 / 2)
   \<and> convertDistance (Num 100) ''miles'' = 100
   \<and> convertDistance (Num 100) ''km'' = 161"
proof -
  have "\<bar>of_int (round (of_int m * 1.60934 :: rat)) - of_int m * 1.60934\<bar> \<le> (1 / 2 :: rat)"
    by (rule of_int_round_abs_le)
  then have general:
    "(toUnit \<noteq> ''km'' \<longrightarrow> convertDistance (Num (of_int m)) toUnit = of_int m)
      \<and> convertDistance (Num (of_int m)) ''miles'' = of_int m
      \<and> convertDistance (Num (of_int m)) ''km'' = of_int (round (of_int m * 1.60934 :: rat))
      \<and> \<bar>convertDistance (Num (of_int m)) ''km'' - of_int m * 1.60934\<bar> \<le> 1 / 2"
    by (simp add: convertDistance_Num Math_round_def round_def)
  have "convertDistance (Num 100) ''miles'' = 100" "convertDistance (Num 100) ''km'' = 161"
    by (simp_all add: convertDistance_Num round_eval)
  with general show ?thesis by blast
qed

theorem convertDistance_display_witness:
  "(0::int) \<le> 54600 \<and> (54600::int) \<le> 1000000
   \<and> convertDistance (Num 54600) ''miles'' = 54600
   \<and> convertDistance (Num 54600) ''km'' = 87870"
  using convertDistance_display [of 54600 "''miles''"]
  by (simp add: round_def floor_rat_numeral_div)

text \<open>
  Claim C4 says that a zero distance is formatted as the placeholder. The guard of
  \<open>formatDistance\<close> is \<^verbatim>\<open>!value && value !== 0\<close>, which lets zero through: with the
  suffix enabled the result is the rendered number zero and the unit.
\<close>

theorem formatDistance_zero_counterexample:
  "formatDistance toLocaleString_en ''miles'' (Num 0) True = ''0 mi''
   \<and> formatDistance toLocaleString_en ''miles'' (Num 0) True \<noteq> ''N/A''"
  by (simp add: format_eval)

text \<open>
  Claim C4, amended. A missing distance (\<^verbatim>\<open>undefined\<close>, \<^verbatim>\<open>null\<close> or \<^verbatim>\<open>NaN\<close>) is
  formatted as the fixed string \<open>N/A\<close> in every unit and with or without the suffix. A
  zero distance with the suffix enabled is formatted as the locale's rendering of zero,
  a space and the unit (\<open>mi\<close> or \<open>km\<close>), which is never the placeholder.
\<close>

theorem formatDistance_placeholder:
  "formatDistance toLocaleString distanceUnit Undefined showUnit = ''N/A''
   \<and> formatDistance toLocaleString distanceUnit Null showUnit = ''N/A''
   \<and> formatDistance toLocaleString distanceUnit NaN showUnit = ''N/A''
   \<and> formatDistance toLocaleString distanceUnit (Num 0) True
       = toLocaleString 0 @ '' '' @ (if distanceUnit = ''km'' then ''km'' else ''mi'')
   \<and> formatDistance toLocaleString distanceUnit (Num 0) True \<noteq> ''N/A''"
  by (auto simp add: formatDistance_def convertDistance_def Let_def append_eq_Cons_conv)

theorem formatDistance_placeholder_witness:
  "formatDistance toLocaleString_en ''km'' Null True = ''N/A''
   \<and> formatDistance toLocaleString_en ''km'' (Num 0) True = ''0 km''"
  using formatDistance_placeholder [of toLocaleString_en "''km''" True]
  by (simp add: format_eval)

text \<open>
  Claim C5 says that a negative distance is rejected. Neither function has a check of the
  sign or a failing branch: minus five miles are converted to minus eight kilometers and
  formatted.
\<close>

theorem negative_distance_counterexample:
  "convertDistance (Num (- 5)) ''km'' = - 8
   \<and> convertDistance (Num (- 5)) ''miles'' = - 5
   \<and> formatDistance toLocaleString_en ''km'' (Num (- 5)) True = ''-8 km''"
  by (simp add: format_eval)

text \<open>
  Claim C5, amended. A negative distance is not rejected: for every negative whole number
  of miles \<open>m\<close>, down to \<open>-1000000\<close>, the conversion returns a value as it does for any
  other number, the distance unchanged for miles and \<open>Math_round (m * 1.60934)\<close> for
  kilometers, and \<open>formatDistance\<close> renders that value, with the unit suffix when it is
  asked for.
\<close>

theorem negative_distance_converted:
  fixes m :: int
  shows "- 1000000 \<le> m \<Longrightarrow> m < 0 \<Longrightarrow>
     convertDistance (Num (of_int m)) ''km'' = of_int (Math_round (of_int m * 1.60934))
     \<and> convertDistance (Num (of_int m)) ''km'' < 0
     \<and> (toUnit \<noteq> ''km'' \<longrightarrow> convertDistance (Num (of_int m)) toUnit = of_int m)
     \<and> formatDistance toLocaleString distanceUnit (Num (of_int m)) True
         = toLocaleString (convertDistance (Num (of_int m)) distanceUnit) @ '' ''
           @ (if distanceUnit = ''km'' then ''km'' else ''mi'')
     \<and> formatDistance toLocaleString distanceUnit (Num (of_int m)) False
         = toLocaleString (convertDistance (Num (of_int m)) distanceUnit)"
proof -
  assume m: "m < 0"
  have "(of_int m :: rat) \<le> - 1" using m by (simp add: of_int_le_iff [of m "- 1", simplified])
  then have "(of_int m :: rat) * 1.60934 + 1 / 2 < 0" by simp
  then have "Math_round (of_int m * 1.60934) < 0"
    unfolding Math_round_def by (simp add: floor_less_iff)
  then have neg: "convertDistance (Num (of_int m)) ''km'' < 0"
    by (simp add: convertDistance_Num)
  from m neg show ?thesis
    by (simp add: convertDistance_Num formatDistance_def Let_def)
qed

theorem negative_distance_converted_witness:
  "(- 1000000 :: int) \<le> - 100 \<and> (- 100 :: int) < 0
   \<and> convertDistance (Num (- 100)) ''km'' = - 161
   \<and> formatDistance toLocaleString_en ''miles'' (Num (- 100)) True = ''-100 mi''"
  using negative_distance_converted [of "- 100" "''miles''" toLocaleString_en "''miles''"]
  by (simp add: format_eval)

lemma round_trip_exact:
  "toCanonical (convertDistance (Num (of_int m)) ''km'') ''km'' = of_int m"
proof -
  define k where "k = Math_round (of_int m * 1.60934)"
  have lo: "of_int k \<le> (of_int m :: rat) * 1.60934 + 1 / 2"
    unfolding k_def Math_round_def by (rule of_int_floor_le)
  have hi: "(of_int m :: rat) * 1.60934 + 1 / 2 < of_int k + 1"
    unfolding k_def Math_round_def
    using floor_correct [of "(of_int m :: rat) * 1.60934 + 1 / 2"] by simp
  have "\<lfloor>(of_int k :: rat) / 1.60934 + 1 / 2\<rfloor> = m"
  proof (rule floor_unique)
    show "of_int m \<le> (of_int k :: rat) / 1.60934 + 1 / 2" using hi by (simp add: field_simps)
    show "(of_int k :: rat) / 1.60934 + 1 / 2 < of_int m + 1" using lo by (simp add: field_simps)
  qed
  then show ?thesis
    by (simp add: convertDistance_Num toCanonical_def Math_round_def k_def)
qed

text \<open>
  The round trip does not hinge on exact arithmetic: a product and a quotient that are
  each off by up to a tenth still round to the same integers.
\<close>

lemma round_trip_robust:
  fixes m :: int and p q :: rat
  assumes p: "\<bar>p - of_int m * 1.60934\<bar> \<le> 1 / 10"
    and q: "\<bar>q - of_int (Math_round p) / 1.60934\<bar> \<le> 1 / 10"
  shows "Math_round q = m"
proof -
  define k where "k = Math_round p"
  have lo: "of_int k \<le> p + 1 / 2"
    unfolding k_def Math_round_def by (rule of_int_floor_le)
  have hi: "p + 1 / 2 < of_int k + 1"
    unfolding k_def Math_round_def using floor_correct [of "p + 1 / 2"] by simp
  define e where "e = (of_int k :: rat) / 1.60934"
  have e: "of_int k = e * 1.60934" unfolding e_def by simp
  have c: "(1.60934 :: rat) = 80467 / 50000" by simp
  from p lo hi have em: "e - of_int m \<le> 38 / 100" "of_int m - e \<le> 38 / 100"
    unfolding e c by linarith+
  from q have "\<bar>q - e\<bar> \<le> 1 / 10" unfolding e_def k_def .
  with em have "of_int m \<le> q + 1 / 2" "q + 1 / 2 < of_int m + 1" by linarith+
  then show ?thesis unfolding Math_round_def by (intro floor_unique)
qed

text \<open>
  Claim C6. For every integer \<open>m\<close> from 0 to 1000000, converting \<open>m\<close> miles to
  kilometers for display and back to miles with \<open>toCanonical\<close> gives a value within one
  mile of \<open>m\<close>. (By \<open>round_trip_exact\<close> the value is \<open>m\<close> itself.)
\<close>

theorem round_trip_within_one:
  "0 \<le> m \<Longrightarrow> m \<le> 1000000 \<Longrightarrow>
     \<bar>toCanonical (convertDistance (Num (of_int m)) ''km'') ''km'' - of_int m\<bar> \<le> 1"
  by (simp add: round_trip_exact)

theorem round_trip_within_one_witness:
  "(0::int) \<le> 54600 \<and> (54600::int) \<le> 1000000
   \<and> convertDistance (Num 54600) ''km'' = 87870
   \<and> toCanonical 87870 ''km'' = 54600
   \<and> \<bar>toCanonical (convertDistance (Num 54600) ''km'') ''km'' - 54600\<bar> \<le> 1"
  using round_trip_within_one [of 54600]
  by (simp add: convertDistance_def toCanonical_def round_eval)

lemma t_lookup_inherited:
  assumes "translations language = Some tbl" "tbl key = None"
    and "key \<in> set object_prototype_names"
  shows "t_lookup builtin_member translations language key = Normal (JObject key)"
  using assms
  by (simp add: t_lookup_def optional_member_def member_of_translations_def
      member_of_table_def)

lemma t_lookup_own_names:
  assumes "language \<notin> set object_prototype_names" "key \<notin> set object_prototype_names"
  shows "t_lookup builtin_member translations language key =
     Normal (JString
       (case (case translations language of None \<Rightarrow> None | Some tbl \<Rightarrow> tbl key) of
          Some (c # cs) \<Rightarrow> c # cs
        | _ \<Rightarrow>
          (case (case translations ''en'' of None \<Rightarrow> None | Some tbl \<Rightarrow> tbl key) of
             Some (c # cs) \<Rightarrow> c # cs
           | _ \<Rightarrow> key)))"
proof -
  have en: "''en'' \<notin> set object_prototype_names"
    by (simp add: object_prototype_names_def)
  show ?thesis
    using assms en
    by (simp add: t_lookup_def optional_member_def member_of_translations_def
        member_of_table_def split: option.split list.split)
qed


section \<open>Properties of the replacement request\<close>

lemma trim_nonempty: "trim s \<noteq> [] \<Longrightarrow> s \<noteq> []"
  by (auto simp: trim_def)

text \<open>
  Claim C7. When the reason is empty or white space only, the handler shows the error
  toast and changes nothing else: no request reaches the server, and the tasks are as
  before. When the reason is not empty after trimming and the task exists, the request
  marks every task of that id as replacement requested and stores the reason as typed;
  the other tasks, the task ids, and the mileage and interval fields of all tasks are
  what they were, and the page shows the reloaded tasks.
\<close>

theorem request_replacement_guard:
  "(trim (replacementReason st) = [] \<longrightarrow>
      handleRequestReplacement taskId st
        = st\<lparr>toasts := toasts st @ [ToastError ''Please provide a reason for replacement'']\<rparr>
      \<and> server (handleRequestReplacement taskId st) = server st
      \<and> tasks (handleRequestReplacement taskId st) = tasks st)
   \<and> (trim (replacementReason st) \<noteq> [] \<and> (\<exists>t \<in> set (server st). task_id t = taskId) \<longrightarrow>
      (\<forall>t \<in> set (server (handleRequestReplacement taskId st)).
          task_id t = taskId \<longrightarrow>
            replacement_requested t \<and> replacement_reason t = replacementReason st)
      \<and> (\<exists>t \<in> set (server (handleRequestReplacement taskId st)). task_id t = taskId)
      \<and> (\<forall>t \<in> set (server st). task_id t \<noteq> taskId \<longrightarrow>
            t \<in> set (server (handleRequestReplacement taskId st)))
      \<and> map task_id (server (handleRequestReplacement taskId st)) = map task_id (server st)
      \<and> map last_performed_mileage (server (handleRequestReplacement taskId st))
          = map last_performed_mileage (server st)
      \<and> map next_due_mileage (server (handleRequestReplacement taskId st))
          = map next_due_mileage (server st)
      \<and> map interval_miles (server (handleRequestReplacement taskId st))
          = map interval_miles (server st)
      \<and> map interval_months (server (handleRequestReplacement taskId st))
          = map interval_months (server st)
      \<and> tasks (handleRequestReplacement taskId st) = server (handleRequestReplacement taskId st))"
proof (intro conjI impI)
  assume "trim (replacementReason st) = []"
  then show "handleRequestReplacement taskId st
        = st\<lparr>toasts := toasts st @ [ToastError ''Please provide a reason for replacement'']\<rparr>"
    "server (handleRequestReplacement taskId st) = server st"
    "tasks (handleRequestReplacement taskId st) = tasks st"
    by (simp_all add: handleRequestReplacement_def)
next
  assume a: "trim (replacementReason st) \<noteq> [] \<and> (\<exists>t \<in> set (server st). task_id t = taskId)"
  then have ne: "replacementReason st \<noteq> []" by (auto dest: trim_nonempty)
  from a have ex: "list_ex (\<lambda>t. task_id t = taskId) (server st)" by (auto simp: list_ex_iff)
  define f where "f = (\<lambda>t::task. if task_id t = taskId
        then t\<lparr>replacement_requested := True, replacement_reason := replacementReason st\<rparr>
        else t)"
  have srv: "server (handleRequestReplacement taskId st) = map f (server st)"
    and tks: "tasks (handleRequestReplacement taskId st) = map f (server st)"
    using a ne ex
    by (simp_all add: handleRequestReplacement_def request_replacement_def fetchCarData_def
        f_def)
  have f_id: "task_id (f t) = task_id t" and f_lpm: "last_performed_mileage (f t) = last_performed_mileage t"
    and f_ndm: "next_due_mileage (f t) = next_due_mileage t"
    and f_im: "interval_miles (f t) = interval_miles t"
    and f_imo: "interval_months (f t) = interval_months t" for t
    by (simp_all add: f_def)
  have f_hit: "task_id t = taskId \<Longrightarrow>
      replacement_requested (f t) \<and> replacement_reason (f t) = replacementReason st" for t
    by (simp add: f_def)
  have f_miss: "task_id t \<noteq> taskId \<Longrightarrow> f t = t" for t
    by (simp add: f_def)
  show "\<forall>t \<in> set (server (handleRequestReplacement taskId st)).
          task_id t = taskId \<longrightarrow>
            replacement_requested t \<and> replacement_reason t = replacementReason st"
  proof (intro ballI impI)
    fix t assume "t \<in> set (server (handleRequestReplacement taskId st))" and i: "task_id t = taskId"
    then obtain u where u: "u \<in> set (server st)" and t: "t = f u"
      unfolding srv by force
    from i t have "task_id u = taskId" by (simp add: f_id)
    from f_hit [OF this] t
    show "replacement_requested t \<and> replacement_reason t = replacementReason st" by simp
  qed
  show "\<exists>t \<in> set (server (handleRequestReplacement taskId st)). task_id t = taskId"
  proof -
    from a obtain u where u: "u \<in> set (server st)" and i: "task_id u = taskId" by blast
    from u have "f u \<in> set (server (handleRequestReplacement taskId st))"
      unfolding srv by simp
    moreover have "task_id (f u) = taskId" using i by (simp add: f_id)
    ultimately show ?thesis by blast
  qed
  show "\<forall>t \<in> set (server st). task_id t \<noteq> taskId \<longrightarrow>
            t \<in> set (server (handleRequestReplacement taskId st))"
  proof (intro ballI impI)
    fix t assume u: "t \<in> set (server st)" and i: "task_id t \<noteq> taskId"
    from u have "f t \<in> set (server (handleRequestReplacement taskId st))"
      unfolding srv by simp
    then show "t \<in> set (server (handleRequestReplacement taskId st))"
      using f_miss [OF i] by simp
  qed
  show "map task_id (server (handleRequestReplacement taskId st)) = map task_id (server st)"
    "map last_performed_mileage (server (handleRequestReplacement taskId st))
          = map last_performed_mileage (server st)"
    "map next_due_mileage (server (handleRequestReplacement taskId st))
          = map next_due_mileage (server st)"
    "map interval_miles (server (handleRequestReplacement taskId st))
          = map interval_miles (server st)"
    "map interval_months (server (handleRequestReplacement taskId st))
          = map interval_months (server st)"
    unfolding srv by (simp_all add: f_id f_lpm f_ndm f_im f_imo)
  show "tasks (handleRequestReplacement taskId st) = server (handleRequestReplacement taskId st)"
    unfolding srv tks ..
qed

theorem request_replacement_guard_witness:
  "trim (replacementReason (car_detail0 ''   '')) = []
   \<and> server (handleRequestReplacement ''a'' (car_detail0 ''   ''))
       = [mk_task ''a'' ''overdue'' False, mk_task ''b'' ''good'' False]
   \<and> toasts (handleRequestReplacement ''a'' (car_detail0 ''   ''))
       = [ToastError ''Please provide a reason for replacement'']
   \<and> trim (replacementReason (car_detail0 ''worn out'')) \<noteq> []
   \<and> server (handleRequestReplacement ''a'' (car_detail0 ''worn out''))
       = [(mk_task ''a'' ''overdue'' True)\<lparr>replacement_reason := ''worn out''\<rparr>,
          mk_task ''b'' ''good'' False]"
  using request_replacement_guard [of "car_detail0 ''   ''" "''a''"]
    request_replacement_guard [of "car_detail0 ''worn out''" "''a''"]
  by (simp add: car_detail0_def trim_def isWhiteSpace_def handleRequestReplacement_def
      request_replacement_def fetchCarData_def mk_task_def)

section \<open>Properties of the calendar and of the StatusEngine\<close>

lemma div_pred:
  fixes y n :: int
  assumes "0 < n"
  shows "y div n = (y - 1) div n + (if y mod n = 0 then 1 else 0)"
proof -
  define q r where "q = y div n" and "r = y mod n"
  have y: "y = n * q + r" unfolding q_def r_def by simp
  have r: "0 \<le> r" "r < n" unfolding r_def using assms by simp_all
  show ?thesis
  proof (cases "r = 0")
    case True
    have "y - 1 = n * (q - 1) + (n - 1)" unfolding y True by (simp add: algebra_simps)
    from int_div_pos_eq [OF this] assms have "(y - 1) div n = q - 1" by simp
    with True show ?thesis unfolding q_def r_def by simp
  next
    case False
    with r have r1: "0 \<le> r - 1" "r - 1 < n" by linarith+
    have "y - 1 = n * q + (r - 1)" unfolding y by simp
    from int_div_pos_eq [OF this r1] have "(y - 1) div n = q" .
    with False show ?thesis unfolding q_def r_def by simp
  qed
qed

lemma mod_chain:
  "(y::int) mod 100 = 0 \<Longrightarrow> y mod 4 = 0"
  "(y::int) mod 400 = 0 \<Longrightarrow> y mod 100 = 0"
  using mod_mod_cancel [of 4 100 y] mod_mod_cancel [of 100 400 y] by simp_all

lemma div_pred_cases:
  fixes y n :: int
  assumes "0 < n"
  shows "y mod n = 0 \<Longrightarrow> (y - 1) div n = y div n - 1"
    and "y mod n \<noteq> 0 \<Longrightarrow> (y - 1) div n = y div n"
  using div_pred [OF assms, of y] by (simp_all split: if_splits)

lemma days_before_year_Suc: "days_before_year (y + 1) = days_before_year y + year_length y"
proof -
  define a b c where "a = y div 4" and "b = y div 100" and "c = y div 400"
  define a' b' c' where "a' = (y - 1) div 4" and "b' = (y - 1) div 100"
    and "c' = (y - 1) div 400"
  have s: "days_before_year (y + 1) = 365 * y + a - b + c"
    by (simp add: days_before_year_def a_def b_def c_def)
  have t: "days_before_year y = 365 * (y - 1) + a' - b' + c'"
    by (simp only: days_before_year_def a'_def b'_def c'_def)
  have pa: "a' = (if y mod 4 = 0 then a - 1 else a)"
    unfolding a'_def a_def using div_pred_cases [of 4 y] by simp
  have pb: "b' = (if y mod 100 = 0 then b - 1 else b)"
    unfolding b'_def b_def using div_pred_cases [of 100 y] by simp
  have pc: "c' = (if y mod 400 = 0 then c - 1 else c)"
    unfolding c'_def c_def using div_pred_cases [of 400 y] by simp
  show ?thesis
    unfolding s t pa pb pc year_length_def leap_year_def
    using mod_chain [of y] by (simp split: if_splits)
qed

lemma days_in_month_bounds: "28 \<le> days_in_month y m" "days_in_month y m \<le> 31"
  by (simp_all add: days_in_month_def)

lemma days_before_month_step:
  "1 \<le> m \<Longrightarrow> days_before_month y (m + 1) = days_before_month y m + days_in_month y m"
  unfolding days_before_month_def
  using upto_rec2 [of 1 m] by simp

lemma days_before_month_one: "days_before_month y 1 = 0"
  by (simp add: days_before_month_def)

lemma days_before_month_mono:
  assumes "m \<le> n" "1 \<le> m"
  shows "days_before_month y m \<le> days_before_month y n"
  using assms
proof (induction n rule: int_ge_induct)
  case base
  show ?case by simp
next
  case (step i)
  have "0 \<le> days_in_month y i" using days_in_month_bounds(1) [of y i] by linarith
  with step show ?case by (simp add: days_before_month_step)
qed

lemma days_before_month_13: "days_before_month y 13 = year_length y"
  by (simp add: days_before_month_def year_length_def days_in_month_def upto_rec1)

lemma days_before_year_le:
  "y \<le> z \<Longrightarrow> days_before_year y \<le> days_before_year z"
proof (induction z rule: int_ge_induct)
  case base
  show ?case by simp
next
  case (step i)
  have "0 \<le> year_length i" by (simp add: year_length_def)
  with step show ?case by (simp add: days_before_year_Suc)
qed

lemma day_in_year_bounds:
  assumes "valid_date d"
  shows "1 \<le> days_before_month (year d) (month d) + day d"
    and "days_before_month (year d) (month d) + day d \<le> year_length (year d)"
proof -
  from assms have m: "1 \<le> month d" "month d \<le> 12" and dd: "1 \<le> day d"
    "day d \<le> days_in_month (year d) (month d)"
    by (simp_all add: valid_date_def)
  have "days_before_month (year d) 1 \<le> days_before_month (year d) (month d)"
    using m by (intro days_before_month_mono) simp_all
  then show "1 \<le> days_before_month (year d) (month d) + day d"
    using dd by (simp add: days_before_month_one)
  have "days_before_month (year d) (month d) + day d \<le> days_before_month (year d) (month d + 1)"
    using m dd by (simp add: days_before_month_step)
  also have "\<dots> \<le> days_before_month (year d) 13"
    using m by (intro days_before_month_mono) simp_all
  finally show "days_before_month (year d) (month d) + day d \<le> year_length (year d)"
    by (simp add: days_before_month_13)
qed

lemma day_number_strict:
  assumes "valid_date a" "valid_date b" "date_less a b"
  shows "day_number a < day_number b"
proof -
  consider (y) "year a < year b"
    | (m) "year a = year b" "month a < month b"
    | (d) "year a = year b" "month a = month b" "day a < day b"
    using assms(3) by (auto simp: date_less_def)
  then show ?thesis
  proof cases
    case y
    have "day_number a \<le> days_before_year (year a) + year_length (year a)"
      using day_in_year_bounds(2) [OF assms(1)] by (simp add: day_number_def)
    also have "\<dots> = days_before_year (year a + 1)" by (simp add: days_before_year_Suc)
    also have "\<dots> \<le> days_before_year (year b)" using y by (intro days_before_year_le) simp
    also have "\<dots> < day_number b"
      using day_in_year_bounds(1) [OF assms(2)] by (simp add: day_number_def)
    finally show ?thesis .
  next
    case m
    from assms have ma: "1 \<le> month a" and da: "day a \<le> days_in_month (year a) (month a)"
      and db: "1 \<le> day b"
      by (simp_all add: valid_date_def)
    have "days_before_month (year a) (month a) + day a
        \<le> days_before_month (year a) (month a + 1)"
      using ma da by (simp add: days_before_month_step)
    also have "\<dots> \<le> days_before_month (year a) (month b)"
      using ma m(2) by (intro days_before_month_mono) simp_all
    finally show ?thesis using m(1) db by (simp add: day_number_def)
  next
    case d
    then show ?thesis by (simp add: day_number_def)
  qed
qed

lemma date_le_iff_day_number:
  assumes "valid_date a" "valid_date b"
  shows "date_le a b \<longleftrightarrow> day_number a \<le> day_number b"
proof
  assume "date_le a b"
  then have "date_less a b \<or> (year a = year b \<and> month a = month b \<and> day a = day b)"
    by (auto simp: date_le_def date_less_def order_le_less)
  then consider "date_less a b" | "year a = year b \<and> month a = month b \<and> day a = day b"
    by blast
  then show "day_number a \<le> day_number b"
  proof cases
    case 1
    from day_number_strict [OF assms this] show ?thesis by simp
  next
    case 2
    then show ?thesis by (simp add: day_number_def)
  qed
next
  assume le: "day_number a \<le> day_number b"
  show "date_le a b"
  proof (rule ccontr)
    assume "\<not> date_le a b"
    then have "date_less b a"
      by (cases "year a = year b"; cases "month a = month b")
         (auto simp: date_le_def date_less_def)
    from day_number_strict [OF assms(2) assms(1) this] le show False by simp
  qed
qed

lemma valid_add_months:
  assumes "valid_date d"
  shows "valid_date (add_months d n)"
proof -
  define k where "k = year d * 12 + (month d - 1) + n"
  from assms have d1: "1 \<le> day d" by (simp add: valid_date_def)
  have m: "1 \<le> k mod 12 + 1" "k mod 12 + 1 \<le> 12"
    using pos_mod_sign [of 12 k] pos_mod_bound [of 12 k] by simp_all
  have "28 \<le> days_in_month (k div 12) (k mod 12 + 1)" by (rule days_in_month_bounds)
  then have "1 \<le> min (day d) (days_in_month (k div 12) (k mod 12 + 1))" using d1 by simp
  with m show ?thesis
    by (simp add: valid_date_def add_months_def Let_def k_def)
qed

lemma overdue_by_date:
  assumes "valid_date a" "valid_date b"
  shows "days_between a b \<le> 0 \<longleftrightarrow> date_le b a"
  using date_le_iff_day_number [OF assms(2) assms(1)] by (simp add: days_between_def)

text \<open>
  Claim C1. For every task without a replacement request and with positive intervals (the
  dates being dates of the calendar), the engine returns a result: the next due mileage is
  the last performed mileage plus the interval in miles, the next due date is the last
  performed date plus the interval in months, and the status is \<open>Overdue\<close> when the
  current mileage has reached the next due mileage or today is the next due date or a
  later day; otherwise \<open>Due_soon\<close> when at most 500 miles or at most 14 days remain;
  otherwise \<open>Good\<close>. Either the mileage or the date suffices on its own.
\<close>

theorem StatusEngine_classifies:
  assumes "\<not> replacementRequested i" "0 < intervalMiles i" "0 < intervalMonths i"
    and "valid_date (lastPerformedDate i)" "valid_date (today i)"
  shows "\<exists>out. StatusEngine i = Inr out
           \<and> nextDueMileage out = lastPerformedMileage i + intervalMiles i
           \<and> nextDueDate out = add_months (lastPerformedDate i) (intervalMonths i)
           \<and> status_label out =
               (if nextDueMileage out \<le> currentMileage i \<or> date_le (nextDueDate out) (today i)
                  then Overdue
                else if nextDueMileage out - currentMileage i \<le> 500
                        \<or> days_between (today i) (nextDueDate out) \<le> 14
                  then Due_soon
                else Good)"
proof -
  let ?ndd = "add_months (lastPerformedDate i) (intervalMonths i)"
  have v: "valid_date ?ndd" using assms(4) by (rule valid_add_months)
  have od: "days_between (today i) ?ndd \<le> 0 \<longleftrightarrow> date_le ?ndd (today i)"
    using assms(5) v by (rule overdue_by_date)
  show ?thesis
    using assms(1-3) od
    by (simp add: StatusEngine_def Let_def DUE_SOON_MILES_THRESHOLD_def
        DUE_SOON_DAYS_THRESHOLD_def)
qed

lemmas date_eval = valid_date_def days_in_month_def leap_year_def add_months_def
  days_between_def day_number_def days_before_year_def days_before_month_def date_le_def
  upto_rec1
  Let_def

theorem StatusEngine_classifies_witness:
  "StatusEngine (scenario 54600)
     = Inr \<lparr>nextDueMileage = 55000, nextDueDate = \<lparr>year = 2024, month = 7, day = 15\<rparr>,
            status_label = Due_soon\<rparr>
   \<and> StatusEngine (scenario 55200)
     = Inr \<lparr>nextDueMileage = 55000, nextDueDate = \<lparr>year = 2024, month = 7, day = 15\<rparr>,
            status_label = Overdue\<rparr>
   \<and> days_between (today (scenario 54600)) \<lparr>year = 2024, month = 7, day = 15\<rparr> = 44"
  using StatusEngine_classifies [of "scenario 54600"] StatusEngine_classifies [of "scenario 55200"]
  by (simp add: scenario_def StatusEngine_def DUE_SOON_MILES_THRESHOLD_def
      DUE_SOON_DAYS_THRESHOLD_def date_eval)

end
